theory Spec2Isabelle
  imports Main "HOL-Library.Signed_Division" "HOL-Library.Sublist"
begin

section \<open>Go library functions used by the router\<close>

text \<open>
  Go strings are byte sequences; they are modelled as \<^typ>\<open>string\<close>. The functions of
  this section stand for the standard library (\<^verbatim>\<open>strings\<close>, \<^verbatim>\<open>fmt\<close>, \<^verbatim>\<open>net/textproto\<close>,
  \<^verbatim>\<open>net/http\<close>) as far as the router calls it.
\<close>

subsection \<open>Package strings\<close>

definition upperLetters :: string where
  "upperLetters = ''ABCDEFGHIJKLMNOPQRSTUVWXYZ''"

definition lowerLetters :: string where
  "lowerLetters = ''abcdefghijklmnopqrstuvwxyz''"

text \<open>\<^verbatim>\<open>c += 'a' - 'A'\<close> for \<^verbatim>\<open>'A' <= c <= 'Z'\<close>, every other byte unchanged.\<close>

definition toLowerByte :: "char \<Rightarrow> char" where
  "toLowerByte c = (case map_of (zip upperLetters lowerLetters) c of Some l \<Rightarrow> l | None \<Rightarrow> c)"

definition toUpperByte :: "char \<Rightarrow> char" where
  "toUpperByte c = (case map_of (zip lowerLetters upperLetters) c of Some u \<Rightarrow> u | None \<Rightarrow> c)"

text \<open>Every byte is below \<^verbatim>\<open>utf8.RuneSelf\<close>, that is \<^verbatim>\<open>0x80\<close>.\<close>

definition isASCII :: "string \<Rightarrow> bool" where
  "isASCII s = list_all (\<lambda>c. (of_char c :: nat) < 128) s"

text \<open>
  \<^verbatim>\<open>strings.ToLower(s)\<close>. On a string of ASCII bytes the letters \<^verbatim>\<open>A\<close> to \<^verbatim>\<open>Z\<close> become
  lower case and every other byte stays. On any other string Go returns
  \<^verbatim>\<open>strings.Map(unicode.ToLower, s)\<close>, which decodes UTF-8 and consults the Unicode case
  tables; there a letter outside ASCII can become an ASCII letter (U+212A, the Kelvin sign,
  becomes \<^verbatim>\<open>k\<close>). The tables are not modelled: what Go returns on a string that is not
  ASCII is the parameter \<^verbatim>\<open>unicodeToLower\<close>, of which nothing is assumed. Every function
  that lowers a string takes this parameter.
\<close>

definition strings_ToLower :: "(string \<Rightarrow> string) \<Rightarrow> string \<Rightarrow> string" where
  "strings_ToLower unicodeToLower s =
     (if isASCII s then map toLowerByte s else unicodeToLower s)"

text \<open>\<^verbatim>\<open>strings.HasPrefix(s, p)\<close>.\<close>

definition strings_HasPrefix :: "string \<Rightarrow> string \<Rightarrow> bool" where
  "strings_HasPrefix s p = (take (length p) s = p)"

text \<open>\<^verbatim>\<open>strings.Contains(s, substr)\<close>: \<^verbatim>\<open>substr\<close> occurs in \<^verbatim>\<open>s\<close> as a contiguous run.\<close>

fun strings_Contains :: "string \<Rightarrow> string \<Rightarrow> bool" where
  "strings_Contains [] substr = (substr = [])"
| "strings_Contains (c # s) substr =
     (strings_HasPrefix (c # s) substr \<or> strings_Contains s substr)"

text \<open>\<^verbatim>\<open>strings.Index(s, sep)\<close>: the position of the first occurrence, \<open>-1\<close> when there is none.\<close>

fun strings_Index :: "string \<Rightarrow> string \<Rightarrow> int" where
  "strings_Index [] sep = (if sep = [] then 0 else - 1)"
| "strings_Index (c # s) sep =
     (if strings_HasPrefix (c # s) sep then 0
      else (let i = strings_Index s sep in if i < 0 then - 1 else i + 1))"

subsection \<open>Package fmt\<close>

text \<open>The verb \<^verbatim>\<open>%d\<close>: an integer in decimal, with a minus sign when negative.\<close>

fun digits :: "nat \<Rightarrow> string" where
  "digits n =
     (if n < 10 then [''0123456789'' ! n]
      else digits (n div 10) @ [''0123456789'' ! (n mod 10)])"

declare digits.simps [simp del]

definition fmt_d :: "int \<Rightarrow> string" where
  "fmt_d i = (if i < 0 then CHR ''-'' # digits (nat (- i)) else digits (nat i))"

subsection \<open>HTTP headers and cookies\<close>

text \<open>
  \<^verbatim>\<open>http.Header\<close> is \<^verbatim>\<open>map[string][]string\<close>. \<^verbatim>\<open>Get\<close>, \<^verbatim>\<open>Set\<close> and \<^verbatim>\<open>Del\<close> address the
  map under the canonical form of the key; indexing the map directly does not.
\<close>

type_synonym header = "string \<rightharpoonup> string list"

text \<open>The token bytes of RFC 7230, the bytes a header field name and a cookie name may have.\<close>

definition validHeaderFieldByte :: "char \<Rightarrow> bool" where
  "validHeaderFieldByte c =
     (c \<in> set (''!#$%&*+-.^_|~'' @ [CHR 0x27, CHR 0x60] @ ''0123456789''
                @ upperLetters @ lowerLetters))"

text \<open>
  The first letter and every letter after a dash in upper case, the other letters in lower
  case (\<^verbatim>\<open>upper\<close> is the loop's flag).
\<close>

fun canonicalMIMEHeaderKey :: "bool \<Rightarrow> string \<Rightarrow> string" where
  "canonicalMIMEHeaderKey upper [] = []"
| "canonicalMIMEHeaderKey upper (c # s) =
     (let c' = (if upper then toUpperByte c else toLowerByte c)
      in c' # canonicalMIMEHeaderKey (c' = CHR ''-'') s)"

text \<open>A key holding a byte that is no token byte is returned as it is.\<close>

definition CanonicalHeaderKey :: "string \<Rightarrow> string" where
  "CanonicalHeaderKey s =
     (if list_all validHeaderFieldByte s then canonicalMIMEHeaderKey True s else s)"

definition Header_Get :: "header \<Rightarrow> string \<Rightarrow> string" where
  "Header_Get h key =
     (case h (CanonicalHeaderKey key) of
        None \<Rightarrow> ''''
      | Some [] \<Rightarrow> ''''
      | Some (v # _) \<Rightarrow> v)"

definition Header_Set :: "header \<Rightarrow> string \<Rightarrow> string \<Rightarrow> header" where
  "Header_Set h key v = h(CanonicalHeaderKey key \<mapsto> [v])"

definition Header_Del :: "header \<Rightarrow> string \<Rightarrow> header" where
  "Header_Del h key = h(CanonicalHeaderKey key := None)"

text \<open>\<^verbatim>\<open>http.Cookie\<close>; the fields the router reads or writes, and \<^verbatim>\<open>Domain\<close>.\<close>

record cookie =
  Name :: string
  Value :: string
  Path :: string
  Domain :: string
  MaxAge :: int
  Secure :: bool
  HttpOnly :: bool

definition isCookieNameValid :: "string \<Rightarrow> bool" where
  "isCookieNameValid raw = (raw \<noteq> [] \<and> list_all validHeaderFieldByte raw)"

text \<open>
  A response writer is modelled by the cookies set on it, oldest first: the
  \<^verbatim>\<open>http.Cookie\<close> values handed to \<^verbatim>\<open>http.SetCookie\<close>, which adds a \<^verbatim>\<open>Set-Cookie\<close> header
  line unless the cookie's name is invalid.
\<close>

type_synonym responseWriter = "cookie list"

definition http_SetCookie :: "responseWriter \<Rightarrow> cookie \<Rightarrow> responseWriter" where
  "http_SetCookie w c = (if isCookieNameValid (Name c) then w @ [c] else w)"

text \<open>
  \<^verbatim>\<open>http.Response\<close>: the status code, and the cookies that \<^verbatim>\<open>Cookies()\<close> parses from the
  \<^verbatim>\<open>Set-Cookie\<close> header lines, in the order of the lines.
\<close>

record response =
  StatusCode :: int
  SetCookies :: "cookie list"

record url =
  Scheme :: string
  Opaque :: string
  URL_Host :: string
  URL_Path :: string
  RawQuery :: string

datatype connectionState = ConnectionState

section \<open>The router's data\<close>

text \<open>
  Modelled from the spec: \<^verbatim>\<open>route.Endpoint\<close>, one backend instance (section 3 of the
  specification; the package \<^verbatim>\<open>route\<close> is not among the sources). The modification tag,
  which only the registry reads, is left out.
\<close>

record endpoint =
  ApplicationId :: string
  addr :: string
  PrivateInstanceId :: string
  PrivateInstanceIndex :: string
  Tags :: "string \<rightharpoonup> string"
  StaleThresholdInSeconds :: int
  RouteServiceUrl :: string

text \<open>
  Modelled from the spec: \<^verbatim>\<open>schema.AccessLogRecord\<close>, of which the dispatcher sets the
  chosen endpoint (section 3; the package \<^verbatim>\<open>access_log/schema\<close> is not among the sources).
\<close>

record accessLogRecord =
  RouteEndpoint :: "endpoint option"

text \<open>
  Modelled from the spec: \<^verbatim>\<open>route.Pool\<close>, the endpoints that serve one route (section 3).
\<close>

type_synonym pool = "endpoint list"

text \<open>
  \<^verbatim>\<open>http.Request\<close>. \<^verbatim>\<open>Cookies\<close> holds what \<^verbatim>\<open>request.Cookie\<close> searches: the cookies
  parsed from the \<^verbatim>\<open>Cookie\<close> header lines. \<^verbatim>\<open>ctxAccessLogRecord\<close> and \<^verbatim>\<open>ctxRoutePool\<close>
  are the values of the request context under the keys \<^verbatim>\<open>"AccessLogRecord"\<close> and
  \<^verbatim>\<open>"RoutePool"\<close>, which the access-log and lookup handlers store.
\<close>

record request =
  Host :: string
  RequestURI :: string
  Header :: header
  Cookies :: "cookie list"
  TLS :: "connectionState option"
  URL :: url
  ctxAccessLogRecord :: "accessLogRecord option"
  ctxRoutePool :: "pool option"

section \<open>metrics/metrics\_reporter.go\<close>

text \<open>
  The batcher is modelled by the names passed to \<^verbatim>\<open>BatchIncrementCounter\<close>, oldest first.
  The captures that send floating-point values through the sender are not modelled.
\<close>

record MetricsReporter =
  batcher :: "string list"

definition BatchIncrementCounter :: "string \<Rightarrow> MetricsReporter \<Rightarrow> MetricsReporter" where
  "BatchIncrementCounter name m = m\<lparr>batcher := batcher m @ [name]\<rparr>"

definition CaptureBadRequest :: "MetricsReporter \<Rightarrow> MetricsReporter" where
  "CaptureBadRequest m = BatchIncrementCounter ''rejected_requests'' m"

definition CaptureBadGateway :: "MetricsReporter \<Rightarrow> MetricsReporter" where
  "CaptureBadGateway m = BatchIncrementCounter ''bad_gateways'' m"

text \<open>
  The endpoint is a non-nil pointer: the dispatcher's \<^verbatim>\<open>afterNext\<close> calls the capture under
  \<^verbatim>\<open>if endpoint != nil\<close>. Reading a key that a Go map lacks gives \<^verbatim>\<open>ok = false\<close>.
\<close>

definition CaptureRoutingRequest :: "MetricsReporter \<Rightarrow> endpoint \<Rightarrow> MetricsReporter" where
  "CaptureRoutingRequest m b =
     (let m1 = BatchIncrementCounter ''total_requests'' m
      in case Tags b ''component'' of
           None \<Rightarrow> m1
         | Some componentName \<Rightarrow>
             if length componentName > 0 then
               (let m2 = BatchIncrementCounter (''requests.'' @ componentName) m1
                in if strings_HasPrefix componentName ''dea-''
                   then BatchIncrementCounter ''routed_app_requests'' m2
                   else m2)
             else m1)"

text \<open>
  \<^verbatim>\<open>statusCode\<close> starts as 0 and is set only for a non-nil response; Go's integer division
  truncates towards zero.
\<close>

definition getResponseCounterName :: "response option \<Rightarrow> string" where
  "getResponseCounterName res =
     (let statusCode = (case res of None \<Rightarrow> 0 | Some r \<Rightarrow> StatusCode r sdiv 100)
      in if statusCode \<ge> 2 \<and> statusCode \<le> 5 then fmt_d statusCode @ ''xx'' else ''xxx'')"

definition CaptureRouteServiceResponse ::
  "MetricsReporter \<Rightarrow> response option \<Rightarrow> MetricsReporter" where
  "CaptureRouteServiceResponse m res =
     BatchIncrementCounter ''responses.route_services''
       (BatchIncrementCounter (''responses.route_services.'' @ getResponseCounterName res) m)"

definition CaptureRoutingResponse ::
  "MetricsReporter \<Rightarrow> response option \<Rightarrow> MetricsReporter" where
  "CaptureRoutingResponse m res =
     BatchIncrementCounter ''responses''
       (BatchIncrementCounter (''responses.'' @ getResponseCounterName res) m)"

section \<open>proxy/proxy.go\<close>

definition VcapCookieId :: string where
  "VcapCookieId = ''__VCAP_ID__''"

definition StickyCookieKey :: string where
  "StickyCookieKey = ''JSESSIONID''"

text \<open>The configuration fields of \<^verbatim>\<open>proxy\<close> that the functions below read.\<close>

record proxy =
  secureCookies :: bool
  forceForwardedProtoHttps :: bool
  defaultLoadBalance :: string

text \<open>
  \<^verbatim>\<open>host[0:pos]\<close> is \<^term>\<open>take (nat pos) host\<close>: \<^verbatim>\<open>pos\<close> never exceeds the length
  (lemma \<open>strings_Index_le_length\<close>), so the slice expression cannot panic.
\<close>

definition hostWithoutPort :: "request \<Rightarrow> string" where
  "hostWithoutPort req =
     (let host = Host req;
          pos = strings_Index host '':''
      in if pos \<ge> 0 then take (nat pos) host else host)"

text \<open>
  \<^verbatim>\<open>request.Cookie(name)\<close> returns the first cookie of that name, or \<^verbatim>\<open>ErrNoCookie\<close>
  (here \<^term>\<open>None\<close>).
\<close>

definition request_Cookie :: "request \<Rightarrow> string \<Rightarrow> cookie option" where
  "request_Cookie req name = find (\<lambda>c. Name c = name) (Cookies req)"

definition getStickySession :: "request \<Rightarrow> string" where
  "getStickySession req =
     (case request_Cookie req StickyCookieKey of
        None \<Rightarrow> ''''
      | Some _ \<Rightarrow>
          (case request_Cookie req VcapCookieId of
             None \<Rightarrow> ''''
           | Some sticky \<Rightarrow> Value sticky))"

text \<open>
  The loop of \<^verbatim>\<open>setupStickySession\<close> over \<^verbatim>\<open>response.Cookies()\<close>, on the variables
  \<^verbatim>\<open>(sticky, maxAge, secure)\<close>; it leaves at the first cookie named \<^verbatim>\<open>JSESSIONID\<close>.
\<close>

fun stickyLoop :: "cookie list \<Rightarrow> bool \<times> int \<times> bool \<Rightarrow> bool \<times> int \<times> bool" where
  "stickyLoop [] st = st"
| "stickyLoop (v # vs) (sticky, maxAge, secure) =
     (if Name v = StickyCookieKey
      then (True, (if MaxAge v < 0 then MaxAge v else maxAge), Secure v)
      else stickyLoop vs (sticky, maxAge, secure))"

datatype panic = NilPointerDereference | InterfaceConversion

text \<open>
  \<^verbatim>\<open>response\<close> and \<^verbatim>\<open>endpoint\<close> are pointers; \<^term>\<open>None\<close> is nil. The endpoint is read
  when \<^verbatim>\<open>originalEndpointId\<close> is not empty (the right operand of \<^verbatim>\<open>&&\<close>) and again when
  the cookie is built; the response is read by \<^verbatim>\<open>response.Cookies()\<close>.
\<close>

definition setupStickySession ::
  "responseWriter \<Rightarrow> response option \<Rightarrow> endpoint option \<Rightarrow> string \<Rightarrow> bool \<Rightarrow> string
     \<Rightarrow> panic + responseWriter" where
  "setupStickySession w resp ep originalEndpointId secure_cookies path =
     (case (if originalEndpointId = '''' then Some False
            else map_option (\<lambda>e. originalEndpointId \<noteq> PrivateInstanceId e) ep) of
        None \<Rightarrow> Inl NilPointerDereference
      | Some sticky0 \<Rightarrow>
          (case resp of
             None \<Rightarrow> Inl NilPointerDereference
           | Some r \<Rightarrow>
               (case stickyLoop (SetCookies r) (sticky0, 0, False) of
                  (sticky, maxAge, secure) \<Rightarrow>
                    if sticky then
                      (case ep of
                         None \<Rightarrow> Inl NilPointerDereference
                       | Some e \<Rightarrow>
                           Inr (http_SetCookie w
                                 \<lparr>Name = VcapCookieId,
                                  Value = PrivateInstanceId e,
                                  Path = path,
                                  Domain = '''',
                                  MaxAge = maxAge,
                                  Secure = (if secure_cookies then True else secure),
                                  HttpOnly = True\<rparr>))
                    else Inr w)))"

text \<open>\<^verbatim>\<open>request.Header[key]\<close>: indexing the map; a missing key gives the nil slice.\<close>

definition Header_index :: "header \<Rightarrow> string \<Rightarrow> string list" where
  "Header_index h key = (case h key of None \<Rightarrow> [] | Some vs \<Rightarrow> vs)"

text \<open>The loop of \<^verbatim>\<open>upgradeHeader\<close> over the values of the \<^verbatim>\<open>Connection\<close> header.\<close>

fun upgradeHeaderLoop :: "(string \<Rightarrow> string) \<Rightarrow> string list \<Rightarrow> request \<Rightarrow> string" where
  "upgradeHeaderLoop unicodeToLower [] req = ''''"
| "upgradeHeaderLoop unicodeToLower (v # vs) req =
     (if strings_Contains (strings_ToLower unicodeToLower v) ''upgrade''
      then Header_Get (Header req) ''Upgrade''
      else upgradeHeaderLoop unicodeToLower vs req)"

definition upgradeHeader :: "(string \<Rightarrow> string) \<Rightarrow> request \<Rightarrow> string" where
  "upgradeHeader unicodeToLower req =
     upgradeHeaderLoop unicodeToLower
       (Header_index (Header req) (CanonicalHeaderKey ''Connection'')) req"

definition isWebSocketUpgrade :: "(string \<Rightarrow> string) \<Rightarrow> request \<Rightarrow> bool" where
  "isWebSocketUpgrade unicodeToLower req =
     (strings_ToLower unicodeToLower (upgradeHeader unicodeToLower req) = ''websocket'')"

definition isTcpUpgrade :: "(string \<Rightarrow> string) \<Rightarrow> request \<Rightarrow> bool" where
  "isTcpUpgrade unicodeToLower req = (upgradeHeader unicodeToLower req = ''tcp'')"

text \<open>
  The iterator that \<^verbatim>\<open>ServeHTTP\<close> builds: \<^verbatim>\<open>routePool.Endpoints(p.defaultLoadBalance,
  stickyEndpointId)\<close> under the \<^verbatim>\<open>afterNext\<close> wrapper, kept as the three values it is built
  from.
\<close>

record wrappedIterator =
  nestedPool :: pool
  nestedLoadBalance :: string
  nestedStickyEndpointId :: string

text \<open>
  The dynamic type of the \<^verbatim>\<open>http.ResponseWriter\<close> that \<^verbatim>\<open>ServeHTTP\<close> receives: the
  wrapper that \<^verbatim>\<open>proxyWriterHandler\<close> installs, or any other writer.
\<close>

datatype writerType = ProxyResponseWriter | OtherResponseWriter

text \<open>
  What \<^verbatim>\<open>proxy.ServeHTTP\<close> does with a request: the type assertion panics, or
  \<^verbatim>\<open>http.Error\<close> answers with a message and a status, or the request goes to
  \<^verbatim>\<open>handler.HandleTcpRequest(iter)\<close>, to \<^verbatim>\<open>handler.HandleWebSocketRequest(iter)\<close> or to
  \<^verbatim>\<open>next\<close>, the reverse proxy.
\<close>

datatype served =
  Panicked panic
  | HttpError string int
  | HandleTcpRequest wrappedIterator
  | HandleWebSocketRequest wrappedIterator
  | NextHandler

definition ServeHTTP ::
  "(string \<Rightarrow> string) \<Rightarrow> proxy \<Rightarrow> writerType \<Rightarrow> request \<Rightarrow> served" where
  "ServeHTTP unicodeToLower p w req =
     (if w \<noteq> ProxyResponseWriter then Panicked InterfaceConversion
      else case ctxAccessLogRecord req of
        None \<Rightarrow> HttpError ''AccessLogRecord not set on context'' 500
      | Some accessLog \<Rightarrow>
          (case ctxRoutePool req of
             None \<Rightarrow> HttpError ''RoutePool not set on context'' 500
           | Some routePool \<Rightarrow>
               (let stickyEndpointId = getStickySession req;
                    iter = \<lparr>nestedPool = routePool,
                            nestedLoadBalance = defaultLoadBalance p,
                            nestedStickyEndpointId = stickyEndpointId\<rparr>
                in if isTcpUpgrade unicodeToLower req then HandleTcpRequest iter
                   else if isWebSocketUpgrade unicodeToLower req
                     then HandleWebSocketRequest iter
                   else NextHandler)))"

text \<open>
  Modelled from the spec: the header name \<^verbatim>\<open>router_http.CfAppInstance\<close> (section 4.4:
  ``strip any inbound X-CF-App-Instance header''); the package \<^verbatim>\<open>common/http\<close> is not among
  the sources.
\<close>

definition CfAppInstance :: string where
  "CfAppInstance = ''X-CF-App-Instance''"

text \<open>
  Modelled from the spec: \<^verbatim>\<open>handler.SetRequestXRequestStart\<close> (section 4.4: ``stamp
  X-Request-Start with the current millisecond timestamp if absent''); the package
  \<^verbatim>\<open>proxy/handler\<close> is not among the sources. \<^verbatim>\<open>now\<close> is the clock's reading in
  milliseconds.
\<close>

definition SetRequestXRequestStart :: "int \<Rightarrow> request \<Rightarrow> request" where
  "SetRequestXRequestStart now req =
     (if Header req (CanonicalHeaderKey ''X-Request-Start'') = None
      then req\<lparr>Header := Header_Set (Header req) ''X-Request-Start'' (fmt_d now)\<rparr>
      else req)"

text \<open>
  The director. Both requests are changed in place; the model returns the pair
  \<^verbatim>\<open>(source, target)\<close> as the call leaves it. The requests are non-nil and have a header
  map and a URL, as the server and the reverse proxy driver build them. The model keeps the
  two header maps apart; were the target to share the source's map, the only further effect
  would be that the stamp of \<^verbatim>\<open>X-Request-Start\<close> shows in the target as well.
\<close>

definition setupProxyRequest :: "proxy \<Rightarrow> int \<Rightarrow> request \<Rightarrow> request \<Rightarrow> request \<times> request" where
  "setupProxyRequest p now source target =
     (let target1 =
            (if forceForwardedProtoHttps p
             then target\<lparr>Header := Header_Set (Header target) ''X-Forwarded-Proto'' ''https''\<rparr>
             else if Header_Get (Header source) ''X-Forwarded-Proto'' = '''' then
               (let scheme = (if TLS source \<noteq> None then ''https'' else ''http'')
                in target\<lparr>Header := Header_Set (Header target) ''X-Forwarded-Proto'' scheme\<rparr>)
             else target);
          target2 = target1\<lparr>URL := (URL target1)\<lparr>Scheme := ''http'',
                                                    URL_Host := Host source,
                                                    Opaque := RequestURI source,
                                                    RawQuery := ''''\<rparr>\<rparr>;
          source1 = SetRequestXRequestStart now source;
          target3 = target2\<lparr>Header := Header_Del (Header target2) CfAppInstance\<rparr>
      in (source1, target3))"

section \<open>proxy/round\_tripper: the retrying round-tripper\<close>

text \<open>
  The file \<^verbatim>\<open>proxy_round_tripper.go\<close> is not among the sources; its test
  \<^verbatim>\<open>proxy_round_tripper_test.go\<close> is. The definitions of this section follow section 4.3
  of the specification, and the test for the shape of the collaborators.
\<close>

text \<open>
  Modelled from the spec: the cause wrapped by a \<^verbatim>\<open>net.OpError\<close>, a connection reset or
  any other error (\<^verbatim>\<open>connResetError\<close> and \<^verbatim>\<open>dialError\<close> of the test).
\<close>

datatype cause = ECONNRESET | ErrorString string

text \<open>
  Modelled from the spec: the errors a round trip can end with. \<^verbatim>\<open>OpError\<close> is
  \<^verbatim>\<open>net.OpError\<close> with its operation and cause; \<^verbatim>\<open>NoEndpointsAvailable\<close> is the sentinel
  of \<^verbatim>\<open>proxy/handler\<close> (section 4.3); \<^verbatim>\<open>OtherError\<close> is any other error.
\<close>

datatype error = OpError string cause | NoEndpointsAvailable | OtherError string

text \<open>
  Modelled from the spec: the retriable errors (section 4.3: ``a connect-time failure
  (operation = "dial") or a connection-reset on read''; the classification function of the
  round-tripper is not among the sources).
\<close>

definition retriableError :: "error \<Rightarrow> bool" where
  "retriableError err =
     (case err of
        OpError op c \<Rightarrow> op = ''dial'' \<or> (op = ''read'' \<and> c = ECONNRESET)
      | NoEndpointsAvailable \<Rightarrow> False
      | OtherError _ \<Rightarrow> False)"

text \<open>
  Modelled from the spec: the endpoint iterator, an interface with the operations
  \<^verbatim>\<open>Next\<close>, \<^verbatim>\<open>EndpointFailed\<close>, \<^verbatim>\<open>PreRequest\<close> and \<^verbatim>\<open>PostRequest\<close> (section 3; its
  implementations are not among the sources). An iterator is any deterministic object
  behind the interface: it records the calls made on it, oldest first, and what \<^verbatim>\<open>Next\<close>
  returns is a function \<^verbatim>\<open>NextStub\<close> of the calls made before.
\<close>

datatype iteratorCall = Next | EndpointFailed | PreRequest endpoint | PostRequest endpoint

text \<open>Modelled from the spec: the iterator's state, as described above.\<close>

record endpointIterator =
  NextStub :: "iteratorCall list \<Rightarrow> endpoint option"
  calls :: "iteratorCall list"

text \<open>
  Modelled from the spec: \<^verbatim>\<open>Next\<close> ``returns the next endpoint or none'' (section 3).
\<close>

definition iterator_Next :: "endpointIterator \<Rightarrow> endpoint option \<times> endpointIterator" where
  "iterator_Next it = (NextStub it (calls it), it\<lparr>calls := calls it @ [Next]\<rparr>)"

text \<open>
  Modelled from the spec: \<^verbatim>\<open>EndpointFailed\<close> ``marks the last-returned endpoint as failed''
  (section 3); the mark is the recorded call.
\<close>

definition iterator_EndpointFailed :: "endpointIterator \<Rightarrow> endpointIterator" where
  "iterator_EndpointFailed it = it\<lparr>calls := calls it @ [EndpointFailed]\<rparr>"

text \<open>
  Modelled from the spec: \<^verbatim>\<open>PreRequest\<close> and \<^verbatim>\<open>PostRequest\<close>, the ``hooks for connection
  accounting'' (section 3).
\<close>

definition iterator_PreRequest :: "endpoint \<Rightarrow> endpointIterator \<Rightarrow> endpointIterator" where
  "iterator_PreRequest e it = it\<lparr>calls := calls it @ [PreRequest e]\<rparr>"

text \<open>Modelled from the spec: see \<^verbatim>\<open>PreRequest\<close>.\<close>

definition iterator_PostRequest :: "endpoint \<Rightarrow> endpointIterator \<Rightarrow> endpointIterator" where
  "iterator_PostRequest e it = it\<lparr>calls := calls it @ [PostRequest e]\<rparr>"

text \<open>Modelled from the spec: whether a recorded call advanced the iterator.\<close>

fun isNext :: "iteratorCall \<Rightarrow> bool" where
  "isNext Next = True"
| "isNext EndpointFailed = False"
| "isNext (PreRequest e) = False"
| "isNext (PostRequest e) = False"

text \<open>
  Modelled from the spec: the number of times the iterator was advanced (section 8; the
  \<^verbatim>\<open>NextCallCount\<close> of the test's fake iterator).
\<close>

definition NextCallCount :: "endpointIterator \<Rightarrow> nat" where
  "NextCallCount it = length (filter isNext (calls it))"

text \<open>
  Modelled from the spec: the underlying transport, an \<^verbatim>\<open>http.RoundTripper\<close> (an external
  collaborator). It records the requests it was given, oldest first; what a round trip
  returns, the pair \<^verbatim>\<open>(response, error)\<close> of Go, is a function \<^verbatim>\<open>RoundTripStub\<close> of the
  requests seen before and the request at hand. A transport does not change the request.
\<close>

record roundTripper =
  RoundTripStub :: "request list \<Rightarrow> request \<Rightarrow> response option \<times> error option"
  roundTripArgs :: "request list"

text \<open>Modelled from the spec: one round trip of the underlying transport.\<close>

definition transport_RoundTrip ::
  "roundTripper \<Rightarrow> request \<Rightarrow> (response option \<times> error option) \<times> roundTripper" where
  "transport_RoundTrip t r =
     (RoundTripStub t (roundTripArgs t) r, t\<lparr>roundTripArgs := roundTripArgs t @ [r]\<rparr>)"

text \<open>
  Modelled from the spec: the round-tripper as \<^verbatim>\<open>NewProxyRoundTripper(servingBackend,
  transport, endpointIterator, logger, after)\<close> of the test builds it. \<^verbatim>\<open>afterSet\<close> tells
  whether the optional \<^verbatim>\<open>AfterRoundTrip\<close> callback was given; \<^verbatim>\<open>afterArgs\<close> records the
  arguments of its invocations.
\<close>

record proxyRoundTripper =
  servingBackend :: bool
  transport :: roundTripper
  iter :: endpointIterator
  afterSet :: bool
  afterArgs :: "(response option \<times> endpoint option \<times> error option) list"

text \<open>
  Modelled from the spec: the variables of one call of \<^verbatim>\<open>RoundTrip\<close>: the round-tripper and the request, both
  changed in place, and the response, endpoint and error of the latest attempt.
\<close>

record roundTrip =
  tripTripper :: proxyRoundTripper
  tripRequest :: request
  tripResponse :: "response option"
  tripEndpoint :: "endpoint option"
  tripError :: "error option"

text \<open>Modelled from the spec: ``Maximum attempts: 3'' (section 4.3).\<close>

definition MaxRetries :: nat where
  "MaxRetries = 3"

text \<open>
  Modelled from the spec: one attempt in backend mode (section 4.3): ``call
  \<^verbatim>\<open>iterator.Next()\<close>. If it returns none, fail with \<^verbatim>\<open>NoEndpointsAvailable\<close>. Call
  \<^verbatim>\<open>iterator.PreRequest(endpoint)\<close>; rewrite the outgoing URL host to the endpoint's
  address; call the underlying transport; call \<^verbatim>\<open>iterator.PostRequest(endpoint)\<close>.''
\<close>

definition backendRoundTrip :: "roundTrip \<Rightarrow> roundTrip" where
  "backendRoundTrip s =
     (let t = tripTripper s
      in case iterator_Next (iter t) of
           (None, it1) \<Rightarrow>
             s\<lparr>tripTripper := t\<lparr>iter := it1\<rparr>,
               tripResponse := None,
               tripEndpoint := None,
               tripError := Some NoEndpointsAvailable\<rparr>
         | (Some e, it1) \<Rightarrow>
             (let it2 = iterator_PreRequest e it1;
                  r = (tripRequest s)\<lparr>URL := (URL (tripRequest s))\<lparr>URL_Host := addr e\<rparr>\<rparr>;
                  (result, transport1) = transport_RoundTrip (transport t) r;
                  it3 = iterator_PostRequest e it2
              in s\<lparr>tripTripper := t\<lparr>transport := transport1, iter := it3\<rparr>,
                   tripRequest := r,
                   tripResponse := fst result,
                   tripEndpoint := Some e,
                   tripError := snd result\<rparr>))"

text \<open>
  Modelled from the spec: the endpoint that stands for the route service when the callback
  is invoked in route-service mode (the callback of the test reads its \<^verbatim>\<open>Tags\<close>).
\<close>

definition routeServiceEndpoint :: endpoint where
  "routeServiceEndpoint =
     \<lparr>ApplicationId = '''', addr = '''', PrivateInstanceId = '''', PrivateInstanceIndex = '''',
      Tags = Map.empty, StaleThresholdInSeconds = 0, RouteServiceUrl = ''''\<rparr>"

text \<open>
  Modelled from the spec: one attempt in route-service mode (section 4.3): ``the iterator is
  not advanced and \<^verbatim>\<open>EndpointFailed\<close> is not called; the single route-service target is
  retried in place'', and the request's headers are not touched.
\<close>

definition routeServiceRoundTrip :: "roundTrip \<Rightarrow> roundTrip" where
  "routeServiceRoundTrip s =
     (let t = tripTripper s;
          (result, transport1) = transport_RoundTrip (transport t) (tripRequest s)
      in s\<lparr>tripTripper := t\<lparr>transport := transport1\<rparr>,
           tripResponse := fst result,
           tripEndpoint := Some routeServiceEndpoint,
           tripError := snd result\<rparr>)"

text \<open>
  Modelled from the spec: the retry loop, with the number of attempts left (section 4.3):
  ``Retry is triggered exactly when the transport error is retriable. Any other error or a
  returned response ends the loop. Before retrying, call \<^verbatim>\<open>iterator.EndpointFailed()\<close>'',
  the latter in backend mode only; \<^verbatim>\<open>EndpointFailed\<close> is called once per failed attempt
  (section 8, property 3).
\<close>

fun attempts :: "nat \<Rightarrow> roundTrip \<Rightarrow> roundTrip" where
  "attempts 0 s = s"
| "attempts (Suc n) s =
     (let s1 = (if servingBackend (tripTripper s) then backendRoundTrip s
                else routeServiceRoundTrip s)
      in case tripError s1 of
           None \<Rightarrow> s1
         | Some err \<Rightarrow>
             if retriableError err then
               attempts n
                 (if servingBackend (tripTripper s1)
                  then s1\<lparr>tripTripper :=
                           (tripTripper s1)\<lparr>iter := iterator_EndpointFailed (iter (tripTripper s1))\<rparr>\<rparr>
                  else s1)
             else s1)"

text \<open>
  Modelled from the spec: ``After a successful round-trip, invoke the optional
  \<^verbatim>\<open>AfterRoundTrip(response, endpoint, err)\<close> callback'' (section 4.3).
\<close>

definition invokeAfter :: "roundTrip \<Rightarrow> roundTrip" where
  "invokeAfter s =
     (let t = tripTripper s
      in if afterSet t \<and> tripError s = None
         then s\<lparr>tripTripper :=
                  t\<lparr>afterArgs := afterArgs t @ [(tripResponse s, tripEndpoint s, tripError s)]\<rparr>\<rparr>
         else s)"

text \<open>
  Modelled from the spec: \<^verbatim>\<open>RoundTrip(request) \<rightarrow> (response, error)\<close> (section 4.3). The
  model returns the pair together with the round-tripper and the request as the call leaves
  them.
\<close>

definition RoundTrip ::
  "proxyRoundTripper \<Rightarrow> request
     \<Rightarrow> (response option \<times> error option) \<times> proxyRoundTripper \<times> request" where
  "RoundTrip t r =
     (let s = invokeAfter
                (attempts MaxRetries
                   \<lparr>tripTripper = t, tripRequest = r, tripResponse = None,
                    tripEndpoint = None, tripError = None\<rparr>)
      in ((tripResponse s, tripError s), tripTripper s, tripRequest s))"

text \<open>
  Modelled from the spec: the header name \<^verbatim>\<open>routeservice.RouteServiceForwardedURL\<close>
  (section 8: ``request has X-CF-Forwarded-Url''); the package \<^verbatim>\<open>routeservice\<close> is not
  among the sources.
\<close>

definition RouteServiceForwardedURL :: string where
  "RouteServiceForwardedURL = ''X-CF-Forwarded-Url''"

text \<open>
  Modelled from the spec: the status with which the reverse proxy driver answers what
  \<^verbatim>\<open>RoundTrip\<close> returned (sections 4.3, 6 and 7): every error that surfaces from the
  round-tripper becomes 502; a response keeps its status. The driver is not among the
  sources.
\<close>

definition driverStatus :: "response option \<times> error option \<Rightarrow> int option" where
  "driverStatus result =
     (case result of
        (_, Some err) \<Rightarrow> Some 502
      | (Some r, None) \<Rightarrow> Some (StatusCode r)
      | (None, None) \<Rightarrow> None)"

section \<open>Properties of the metrics reporter\<close>

lemma sdiv_100_bucket:
  "(2 \<le> (s::int) sdiv 100 \<and> s sdiv 100 \<le> 5) = (200 \<le> s \<and> s \<le> 599)"
  by (auto simp: signed_divide_int_def sgn_if)

lemma sdiv_100_nonneg: "0 \<le> (s::int) \<Longrightarrow> s sdiv 100 = s div 100"
  by (auto simp: signed_divide_int_def sgn_if)

lemma fmt_d_bucket: "2 \<le> (n::int) \<Longrightarrow> n \<le> 5 \<Longrightarrow> fmt_d n = [''0123456789'' ! nat n]"
  by (simp add: fmt_d_def digits.simps)

lemma getResponseCounterName_None: "getResponseCounterName None = ''xxx''"
  by (simp add: getResponseCounterName_def)

lemma getResponseCounterName_Some_sdiv:
  "getResponseCounterName (Some r) =
     (if 200 \<le> StatusCode r \<and> StatusCode r \<le> 599
      then fmt_d (StatusCode r sdiv 100) @ ''xx'' else ''xxx'')"
  by (simp add: getResponseCounterName_def Let_def sdiv_100_bucket)

lemma getResponseCounterName_Some:
  "getResponseCounterName (Some r) =
     (if 200 \<le> StatusCode r \<and> StatusCode r \<le> 599
      then [''0123456789'' ! nat (StatusCode r div 100)] @ ''xx'' else ''xxx'')"
proof (cases "200 \<le> StatusCode r \<and> StatusCode r \<le> 599")
  case True
  then have "2 \<le> StatusCode r sdiv 100 \<and> StatusCode r sdiv 100 \<le> 5"
    by (simp only: sdiv_100_bucket)
  then have "fmt_d (StatusCode r sdiv 100) = [''0123456789'' ! nat (StatusCode r sdiv 100)]"
    by (simp add: fmt_d_bucket)
  moreover from True have "StatusCode r sdiv 100 = StatusCode r div 100"
    by (simp add: sdiv_100_nonneg)
  ultimately have "fmt_d (StatusCode r sdiv 100) = [''0123456789'' ! nat (StatusCode r div 100)]"
    by simp
  then show ?thesis
    by (simp only: getResponseCounterName_Some_sdiv True if_True)
next
  case False
  then show ?thesis
    by (simp only: getResponseCounterName_Some_sdiv if_False)
qed

text \<open>
  Claim C7, as amended. For every call of \<^verbatim>\<open>CaptureBadRequest\<close>, exactly one counter is
  incremented, and its name is \<^verbatim>\<open>rejected_requests\<close>.
\<close>

theorem CaptureBadRequest_rejected_requests:
  "batcher (CaptureBadRequest m) = batcher m @ [''rejected_requests'']"
  by (simp add: CaptureBadRequest_def BatchIncrementCounter_def)

text \<open>
  Claim C7 as stated fails: on a fresh reporter the capture increments no counter named
  \<^verbatim>\<open>bad_request\<close>.
\<close>

theorem CaptureBadRequest_not_bad_request:
  "''bad_request'' \<notin> set (batcher (CaptureBadRequest \<lparr>batcher = []\<rparr>))"
  by (simp add: CaptureBadRequest_def BatchIncrementCounter_def)

text \<open>
  Claim C8, as amended. For every endpoint, \<^verbatim>\<open>CaptureRoutingRequest\<close> increments
  \<^verbatim>\<open>total_requests\<close>; when the endpoint has a \<^verbatim>\<open>component\<close> tag that is not empty it then
  increments \<^verbatim>\<open>requests.<component>\<close>, and after that \<^verbatim>\<open>routed_app_requests\<close> when the tag
  starts with \<^verbatim>\<open>dea-\<close>. It increments nothing else.
\<close>

theorem CaptureRoutingRequest_counters:
  "batcher (CaptureRoutingRequest m b) =
     batcher m @
       (case Tags b ''component'' of
          None \<Rightarrow> [''total_requests'']
        | Some componentName \<Rightarrow>
            if componentName = '''' then [''total_requests'']
            else if strings_HasPrefix componentName ''dea-''
              then [''total_requests'', ''requests.'' @ componentName, ''routed_app_requests'']
            else [''total_requests'', ''requests.'' @ componentName])"
  by (simp add: CaptureRoutingRequest_def BatchIncrementCounter_def Let_def split: option.splits)

theorem CaptureRoutingRequest_counters_witness:
  "batcher (CaptureRoutingRequest \<lparr>batcher = []\<rparr>
      \<lparr>ApplicationId = ''someId'', addr = ''host:2222'', PrivateInstanceId = ''privateId'',
       PrivateInstanceIndex = ''2'', Tags = [''component'' \<mapsto> ''dea-7''],
       StaleThresholdInSeconds = 30, RouteServiceUrl = ''''\<rparr>)
   = [''total_requests'', ''requests.dea-7'', ''routed_app_requests'']"
  using CaptureRoutingRequest_counters [of "\<lparr>batcher = []\<rparr>"
      "\<lparr>ApplicationId = ''someId'', addr = ''host:2222'', PrivateInstanceId = ''privateId'',
        PrivateInstanceIndex = ''2'', Tags = [''component'' \<mapsto> ''dea-7''],
        StaleThresholdInSeconds = 30, RouteServiceUrl = ''''\<rparr>"]
  by (simp add: strings_HasPrefix_def)

text \<open>
  Claim C8 as stated fails: for an endpoint whose \<^verbatim>\<open>component\<close> tag is the empty string,
  and for an endpoint without that tag, only \<^verbatim>\<open>total_requests\<close> is incremented; no
  counter \<^verbatim>\<open>requests.<component>\<close> is.
\<close>

theorem CaptureRoutingRequest_no_component_counter:
  "batcher (CaptureRoutingRequest \<lparr>batcher = []\<rparr>
      \<lparr>ApplicationId = ''someId'', addr = ''host:2222'', PrivateInstanceId = ''privateId'',
       PrivateInstanceIndex = ''2'', Tags = [''component'' \<mapsto> ''''],
       StaleThresholdInSeconds = 30, RouteServiceUrl = ''''\<rparr>)
     = [''total_requests'']
   \<and> batcher (CaptureRoutingRequest \<lparr>batcher = []\<rparr>
      \<lparr>ApplicationId = ''someId'', addr = ''host:2222'', PrivateInstanceId = ''privateId'',
       PrivateInstanceIndex = ''2'', Tags = Map.empty,
       StaleThresholdInSeconds = 30, RouteServiceUrl = ''''\<rparr>)
     = [''total_requests'']"
  by (simp add: CaptureRoutingRequest_def BatchIncrementCounter_def Let_def)

text \<open>
  Claim C9. \<^verbatim>\<open>CaptureRoutingResponse\<close> and \<^verbatim>\<open>CaptureRouteServiceResponse\<close> return for
  every input, a nil response included (no branch of either panics). The bucket is
  \<^verbatim>\<open><N>xx\<close> with \<open>N\<close> the status code divided by 100 when the code is within 200 to
  599, and \<^verbatim>\<open>xxx\<close> for any other code and for a nil response. Each capture increments
  the counter of the bucket, \<^verbatim>\<open>responses.<bucket>\<close> or
  \<^verbatim>\<open>responses.route_services.<bucket>\<close>, and then, in every case, the unqualified counter
  \<^verbatim>\<open>responses\<close> or \<^verbatim>\<open>responses.route_services\<close>.
\<close>

theorem capture_response_buckets:
  "getResponseCounterName res =
     (case res of
        None \<Rightarrow> ''xxx''
      | Some r \<Rightarrow>
          if 200 \<le> StatusCode r \<and> StatusCode r \<le> 599
          then [''0123456789'' ! nat (StatusCode r div 100)] @ ''xx''
          else ''xxx'')
   \<and> batcher (CaptureRoutingResponse m res) =
       batcher m @ [''responses.'' @ getResponseCounterName res, ''responses'']
   \<and> batcher (CaptureRouteServiceResponse m res) =
       batcher m @ [''responses.route_services.'' @ getResponseCounterName res,
                    ''responses.route_services'']"
  by (cases res)
    (simp_all add: getResponseCounterName_None getResponseCounterName_Some
      CaptureRoutingResponse_def CaptureRouteServiceResponse_def BatchIncrementCounter_def)

theorem capture_response_buckets_witness:
  "batcher (CaptureRoutingResponse \<lparr>batcher = []\<rparr> (Some \<lparr>StatusCode = 404, SetCookies = []\<rparr>))
     = [''responses.4xx'', ''responses'']
   \<and> batcher (CaptureRouteServiceResponse \<lparr>batcher = []\<rparr>
        (Some \<lparr>StatusCode = 404, SetCookies = []\<rparr>))
     = [''responses.route_services.4xx'', ''responses.route_services'']"
  using capture_response_buckets [of "Some \<lparr>StatusCode = 404, SetCookies = []\<rparr>" "\<lparr>batcher = []\<rparr>"]
  by simp

section \<open>Properties of the proxy\<close>

lemma strings_Index_le_length: "strings_Index s sep \<le> int (length s)"
  by (induction s) (auto simp: Let_def)

lemma take_strings_Index_colon:
  "(let pos = strings_Index s '':'' in if pos \<ge> 0 then take (nat pos) s else s)
     = takeWhile (\<lambda>c. c \<noteq> CHR '':'') s"
  by (induction s) (auto simp: Let_def strings_HasPrefix_def nat_add_distrib)

lemma hostWithoutPort_takeWhile:
  "hostWithoutPort req = takeWhile (\<lambda>c. c \<noteq> CHR '':'') (Host req)"
  using take_strings_Index_colon [of "Host req"] by (simp add: hostWithoutPort_def Let_def)

text \<open>
  Claim C10. For every request, \<^verbatim>\<open>hostWithoutPort\<close> returns the \<^verbatim>\<open>Host\<close> value cut at its
  first colon: the longest prefix without a colon. A \<^verbatim>\<open>Host\<close> without a colon is returned
  unchanged. For the bracketed IPv6 literal \<^verbatim>\<open>[::1]:8080\<close> the result is \<^verbatim>\<open>[\<close>.
\<close>

theorem hostWithoutPort_truncates:
  "hostWithoutPort req = takeWhile (\<lambda>c. c \<noteq> CHR '':'') (Host req)
   \<and> (CHR '':'' \<notin> set (Host req) \<longrightarrow> hostWithoutPort req = Host req)
   \<and> hostWithoutPort (req\<lparr>Host := ''[::1]:8080''\<rparr>) = ''[''"
  by (auto simp: hostWithoutPort_takeWhile takeWhile_eq_all_conv)

theorem hostWithoutPort_truncates_witness:
  "hostWithoutPort
     \<lparr>Host = ''myapp.com'', RequestURI = ''/'', Header = Map.empty, Cookies = [], TLS = None,
      URL = \<lparr>Scheme = ''http'', Opaque = '''', URL_Host = ''myapp.com'', URL_Path = ''/'',
             RawQuery = ''''\<rparr>,
      ctxAccessLogRecord = None, ctxRoutePool = None\<rparr> = ''myapp.com''
   \<and> hostWithoutPort
     \<lparr>Host = ''[::1]:8080'', RequestURI = ''/'', Header = Map.empty, Cookies = [], TLS = None,
      URL = \<lparr>Scheme = ''http'', Opaque = '''', URL_Host = ''myapp.com'', URL_Path = ''/'',
             RawQuery = ''''\<rparr>,
      ctxAccessLogRecord = None, ctxRoutePool = None\<rparr> = ''[''"
  using hostWithoutPort_truncates [of
     "\<lparr>Host = ''myapp.com'', RequestURI = ''/'', Header = Map.empty, Cookies = [], TLS = None,
      URL = \<lparr>Scheme = ''http'', Opaque = '''', URL_Host = ''myapp.com'', URL_Path = ''/'',
             RawQuery = ''''\<rparr>,
      ctxAccessLogRecord = None, ctxRoutePool = None\<rparr>"]
  by simp

lemma CanonicalHeaderKey_Connection: "CanonicalHeaderKey ''Connection'' = ''Connection''"
  by code_simp

lemma CanonicalHeaderKey_Upgrade: "CanonicalHeaderKey ''Upgrade'' = ''Upgrade''"
  by code_simp

lemma CanonicalHeaderKey_XForwardedProto:
  "CanonicalHeaderKey ''X-Forwarded-Proto'' = ''X-Forwarded-Proto''"
  by code_simp

lemma CanonicalHeaderKey_CfAppInstance: "CanonicalHeaderKey CfAppInstance = ''X-Cf-App-Instance''"
  by code_simp

lemma isCookieNameValid_VcapCookieId: "isCookieNameValid VcapCookieId"
  by code_simp

lemma stickyLoop_find:
  "stickyLoop cs (s0, m0, x0) =
     (case find (\<lambda>c. Name c = StickyCookieKey) cs of
        None \<Rightarrow> (s0, m0, x0)
      | Some j \<Rightarrow> (True, (if MaxAge j < 0 then MaxAge j else m0), Secure j))"
  by (induction cs) auto

text \<open>
  Claim C4. For every upstream response, chosen endpoint, preferred instance identifier,
  \<^verbatim>\<open>secureCookies\<close> flag and path, \<^verbatim>\<open>setupStickySession\<close> returns without a panic, and it
  sets a cookie exactly when the preferred identifier is not empty and differs from the
  endpoint's private instance identifier, or the response carries a cookie named
  \<^verbatim>\<open>JSESSIONID\<close>. It then sets one cookie, named \<^verbatim>\<open>__VCAP_ID__\<close>, whose value is the
  endpoint's private instance identifier, with \<^verbatim>\<open>HttpOnly\<close> true, with the \<^verbatim>\<open>MaxAge\<close> of
  the response's first \<^verbatim>\<open>JSESSIONID\<close> cookie when that is negative and 0 otherwise, and
  with \<^verbatim>\<open>Secure\<close> true exactly when \<^verbatim>\<open>secureCookies\<close> is true or that \<^verbatim>\<open>JSESSIONID\<close>
  cookie is secure.
\<close>

theorem setupStickySession_cookie:
  "setupStickySession w (Some r) (Some e) originalEndpointId secure_cookies path =
     (let jsession = find (\<lambda>c. Name c = ''JSESSIONID'') (SetCookies r)
      in Inr (if (originalEndpointId \<noteq> '''' \<and> originalEndpointId \<noteq> PrivateInstanceId e)
                 \<or> jsession \<noteq> None
              then w @ [\<lparr>Name = ''__VCAP_ID__'',
                         Value = PrivateInstanceId e,
                         Path = path,
                         Domain = '''',
                         MaxAge = (case jsession of
                                     None \<Rightarrow> 0
                                   | Some j \<Rightarrow> if MaxAge j < 0 then MaxAge j else 0),
                         Secure = (secure_cookies \<or>
                                   (case jsession of None \<Rightarrow> False | Some j \<Rightarrow> Secure j)),
                         HttpOnly = True\<rparr>]
              else w))"
  using isCookieNameValid_VcapCookieId
  by (auto simp: setupStickySession_def stickyLoop_find http_SetCookie_def Let_def
      VcapCookieId_def StickyCookieKey_def split: option.splits)

theorem setupStickySession_cookie_witness:
  "setupStickySession []
     (Some \<lparr>StatusCode = 200,
            SetCookies = [\<lparr>Name = ''JSESSIONID'', Value = ''abc'', Path = ''/app'', Domain = '''',
                           MaxAge = - 1, Secure = True, HttpOnly = False\<rparr>]\<rparr>)
     (Some \<lparr>ApplicationId = ''someId'', addr = ''host:2222'', PrivateInstanceId = ''id-2'',
            PrivateInstanceIndex = ''2'', Tags = Map.empty, StaleThresholdInSeconds = 30,
            RouteServiceUrl = ''''\<rparr>)
     ''id-1'' False ''/''
   = Inr [\<lparr>Name = ''__VCAP_ID__'', Value = ''id-2'', Path = ''/'', Domain = '''',
           MaxAge = - 1, Secure = True, HttpOnly = True\<rparr>]"
  using setupStickySession_cookie [of "[]"
     "\<lparr>StatusCode = 200,
       SetCookies = [\<lparr>Name = ''JSESSIONID'', Value = ''abc'', Path = ''/app'', Domain = '''',
                      MaxAge = - 1, Secure = True, HttpOnly = False\<rparr>]\<rparr>"
     "\<lparr>ApplicationId = ''someId'', addr = ''host:2222'', PrivateInstanceId = ''id-2'',
       PrivateInstanceIndex = ''2'', Tags = Map.empty, StaleThresholdInSeconds = 30,
       RouteServiceUrl = ''''\<rparr>"
     "''id-1''" False "''/''"]
  by simp

lemma upgradeHeaderLoop_ex:
  "upgradeHeaderLoop unicodeToLower vs req =
     (if \<exists>v\<in>set vs. strings_Contains (strings_ToLower unicodeToLower v) ''upgrade''
      then Header_Get (Header req) ''Upgrade'' else '''')"
  by (induction vs) auto

text \<open>On ASCII strings the result does not depend on the Unicode tables.\<close>

lemma strings_ToLower_ASCII:
  "isASCII s \<Longrightarrow> strings_ToLower unicodeToLower s = map toLowerByte s"
  by (simp add: strings_ToLower_def)

lemma strings_ToLower_Nil: "strings_ToLower unicodeToLower '''' = ''''"
  by (simp add: strings_ToLower_def isASCII_def)

text \<open>
  Claim C5, as amended. For every request that reaches the dispatcher through the proxy's
  response writer and carries the access-log record and the route pool in its context: it
  goes to the TCP tunnel path exactly when some value of the \<^verbatim>\<open>Connection\<close> header
  contains \<^verbatim>\<open>upgrade\<close>, letter case ignored, and the \<^verbatim>\<open>Upgrade\<close> header equals \<^verbatim>\<open>tcp\<close>;
  otherwise it goes to the WebSocket path exactly when some value of the \<^verbatim>\<open>Connection\<close>
  header contains \<^verbatim>\<open>upgrade\<close>, letter case ignored, and the \<^verbatim>\<open>Upgrade\<close> header equals
  \<^verbatim>\<open>websocket\<close>, letter case ignored; otherwise it falls through to the reverse proxy.
  Letter case is ignored as \<^verbatim>\<open>strings.ToLower\<close> does it, and the statement holds whatever
  that function returns on strings that are not ASCII.
\<close>

theorem ServeHTTP_dispatch:
  assumes "ctxAccessLogRecord req = Some accessLog" and "ctxRoutePool req = Some routePool"
  shows "ServeHTTP unicodeToLower p ProxyResponseWriter req =
     (let connectionUpgrade =
            (\<exists>v\<in>set (Header_index (Header req) ''Connection'').
               strings_Contains (strings_ToLower unicodeToLower v) ''upgrade'');
          upgrade = Header_Get (Header req) ''Upgrade'';
          iter = \<lparr>nestedPool = routePool,
                  nestedLoadBalance = defaultLoadBalance p,
                  nestedStickyEndpointId = getStickySession req\<rparr>
      in if connectionUpgrade \<and> upgrade = ''tcp'' then HandleTcpRequest iter
         else if connectionUpgrade \<and> strings_ToLower unicodeToLower upgrade = ''websocket''
           then HandleWebSocketRequest iter
         else NextHandler)"
  using assms
  by (simp add: ServeHTTP_def isTcpUpgrade_def isWebSocketUpgrade_def upgradeHeader_def
      upgradeHeaderLoop_ex CanonicalHeaderKey_Connection Let_def strings_ToLower_Nil)

text \<open>
  The header values of the instance are ASCII, so the parameter is never consulted; the
  identity stands in for it.
\<close>

theorem ServeHTTP_dispatch_witness:
  "ServeHTTP (\<lambda>s. s)
     \<lparr>secureCookies = False, forceForwardedProtoHttps = False,
      defaultLoadBalance = ''round-robin''\<rparr>
     ProxyResponseWriter
     \<lparr>Host = ''myapp.com'', RequestURI = ''/'',
      Header = [''Connection'' \<mapsto> [''keep-alive, Upgrade''], ''Upgrade'' \<mapsto> [''WebSocket'']],
      Cookies = [], TLS = None,
      URL = \<lparr>Scheme = ''http'', Opaque = '''', URL_Host = ''myapp.com'', URL_Path = ''/'',
             RawQuery = ''''\<rparr>,
      ctxAccessLogRecord = Some \<lparr>RouteEndpoint = None\<rparr>, ctxRoutePool = Some []\<rparr>
   = HandleWebSocketRequest
       \<lparr>nestedPool = [], nestedLoadBalance = ''round-robin'', nestedStickyEndpointId = ''''\<rparr>"
proof -
  let ?req = "\<lparr>Host = ''myapp.com'', RequestURI = ''/'',
      Header = [''Connection'' \<mapsto> [''keep-alive, Upgrade''], ''Upgrade'' \<mapsto> [''WebSocket'']],
      Cookies = [], TLS = None,
      URL = \<lparr>Scheme = ''http'', Opaque = '''', URL_Host = ''myapp.com'', URL_Path = ''/'',
             RawQuery = ''''\<rparr>,
      ctxAccessLogRecord = Some \<lparr>RouteEndpoint = None\<rparr>, ctxRoutePool = Some []\<rparr>"
  have a: "ctxAccessLogRecord ?req = Some \<lparr>RouteEndpoint = None\<rparr>" by simp
  have b: "ctxRoutePool ?req = Some []" by simp
  have c: "strings_Contains (strings_ToLower (\<lambda>s. s) ''keep-alive, Upgrade'') ''upgrade''"
    by code_simp
  have d: "strings_ToLower (\<lambda>s. s) ''WebSocket'' = ''websocket''"
    by code_simp
  have e: "getStickySession ?req = ''''"
    by (simp add: getStickySession_def request_Cookie_def)
  show ?thesis
    using ServeHTTP_dispatch [OF a b,
        of "\<lambda>s. s" "\<lparr>secureCookies = False, forceForwardedProtoHttps = False,
             defaultLoadBalance = ''round-robin''\<rparr>"] c d e
    by (simp add: Header_index_def Header_Get_def CanonicalHeaderKey_Upgrade)
qed

text \<open>
  The Kelvin sign: when the Unicode tables lower \<^verbatim>\<open>websoc\<close>, U+212A (the bytes
  \<^verbatim>\<open>E2 84 AA\<close>), \<^verbatim>\<open>et\<close> to \<^verbatim>\<open>websocket\<close>, as Go's do, a request with that \<^verbatim>\<open>Upgrade\<close>
  header and \<^verbatim>\<open>Connection: upgrade\<close> goes to the WebSocket path.
\<close>

lemma ServeHTTP_kelvin_sign:
  assumes "unicodeToLower (''websoc'' @ [CHR 0xE2, CHR 0x84, CHR 0xAA] @ ''et'') = ''websocket''"
  shows "ServeHTTP unicodeToLower p ProxyResponseWriter
     \<lparr>Host = ''myapp.com'', RequestURI = ''/'',
      Header = [''Connection'' \<mapsto> [''upgrade''],
                ''Upgrade'' \<mapsto> [''websoc'' @ [CHR 0xE2, CHR 0x84, CHR 0xAA] @ ''et'']],
      Cookies = [], TLS = None,
      URL = \<lparr>Scheme = ''http'', Opaque = '''', URL_Host = ''myapp.com'', URL_Path = ''/'',
             RawQuery = ''''\<rparr>,
      ctxAccessLogRecord = Some \<lparr>RouteEndpoint = None\<rparr>, ctxRoutePool = Some []\<rparr>
   = HandleWebSocketRequest
       \<lparr>nestedPool = [], nestedLoadBalance = defaultLoadBalance p,
        nestedStickyEndpointId = ''''\<rparr>"
proof -
  have a: "strings_Contains (strings_ToLower unicodeToLower ''upgrade'') ''upgrade''"
    by (simp add: strings_ToLower_def isASCII_def toLowerByte_def upperLetters_def
        lowerLetters_def strings_HasPrefix_def)
  have b: "\<not> isASCII (''websoc'' @ [CHR 0xE2, CHR 0x84, CHR 0xAA] @ ''et'')"
    by (simp add: isASCII_def)
  show ?thesis
    using a b assms
    by (simp add: ServeHTTP_def isTcpUpgrade_def isWebSocketUpgrade_def upgradeHeader_def
        CanonicalHeaderKey_Connection CanonicalHeaderKey_Upgrade Header_index_def Header_Get_def
        strings_ToLower_def getStickySession_def request_Cookie_def)
qed

text \<open>
  A request whose \<^verbatim>\<open>Upgrade\<close> header equals \<^verbatim>\<open>websocket\<close> and that has no
  \<^verbatim>\<open>Connection\<close> header falls through to the reverse proxy, whatever the Unicode tables
  are: \<^verbatim>\<open>upgradeHeader\<close> returns the empty string, which is ASCII.
\<close>

lemma ServeHTTP_no_connection_header:
  "ServeHTTP unicodeToLower
     \<lparr>secureCookies = False, forceForwardedProtoHttps = False,
      defaultLoadBalance = ''round-robin''\<rparr>
     ProxyResponseWriter
     \<lparr>Host = ''myapp.com'', RequestURI = ''/'',
      Header = [''Upgrade'' \<mapsto> [''websocket'']],
      Cookies = [], TLS = None,
      URL = \<lparr>Scheme = ''http'', Opaque = '''', URL_Host = ''myapp.com'', URL_Path = ''/'',
             RawQuery = ''''\<rparr>,
      ctxAccessLogRecord = Some \<lparr>RouteEndpoint = None\<rparr>, ctxRoutePool = Some []\<rparr>
   = NextHandler"
  by (simp add: ServeHTTP_def isTcpUpgrade_def isWebSocketUpgrade_def upgradeHeader_def
      CanonicalHeaderKey_Connection Header_index_def
      strings_ToLower_Nil getStickySession_def request_Cookie_def)

text \<open>
  Claim C5 as stated fails: a request whose \<^verbatim>\<open>Upgrade\<close> header equals \<^verbatim>\<open>websocket\<close> and
  that has no \<^verbatim>\<open>Connection\<close> header is not handed to the WebSocket path; it falls through
  to the reverse proxy. (The previous lemma gives the same for every value of the
  parameter; here the identity stands in for it.)
\<close>

theorem ServeHTTP_websocket_without_connection:
  "Header_Get [''Upgrade'' \<mapsto> [''websocket'']] ''Upgrade'' = ''websocket''
   \<and> ServeHTTP (\<lambda>s. s)
       \<lparr>secureCookies = False, forceForwardedProtoHttps = False,
        defaultLoadBalance = ''round-robin''\<rparr>
       ProxyResponseWriter
       \<lparr>Host = ''myapp.com'', RequestURI = ''/'',
        Header = [''Upgrade'' \<mapsto> [''websocket'']],
        Cookies = [], TLS = None,
        URL = \<lparr>Scheme = ''http'', Opaque = '''', URL_Host = ''myapp.com'', URL_Path = ''/'',
               RawQuery = ''''\<rparr>,
        ctxAccessLogRecord = Some \<lparr>RouteEndpoint = None\<rparr>, ctxRoutePool = Some []\<rparr>
     = NextHandler"
  by (simp add: ServeHTTP_no_connection_header Header_Get_def CanonicalHeaderKey_Upgrade)

text \<open>
  Claim C6. For every source and target request, after the director has run: the target's
  \<^verbatim>\<open>X-Forwarded-Proto\<close> is \<^verbatim>\<open>https\<close> when \<^verbatim>\<open>forceForwardedProtoHttps\<close> is configured;
  else, when the source has no \<^verbatim>\<open>X-Forwarded-Proto\<close> (its \<^verbatim>\<open>Header.Get\<close> gives the empty
  string), it is \<^verbatim>\<open>https\<close> for a TLS connection and \<^verbatim>\<open>http\<close> otherwise; else it is what
  the target had before. The target's URL has the scheme \<^verbatim>\<open>http\<close>, the source's \<^verbatim>\<open>Host\<close>
  as host, the source's \<^verbatim>\<open>RequestURI\<close> as opaque part and an empty raw query, and the
  target has no \<^verbatim>\<open>X-CF-App-Instance\<close> header.
\<close>

theorem setupProxyRequest_target:
  "(case setupProxyRequest p now source target of (source', target') \<Rightarrow>
      Header target' (CanonicalHeaderKey ''X-Forwarded-Proto'') =
        (if forceForwardedProtoHttps p then Some [''https'']
         else if Header_Get (Header source) ''X-Forwarded-Proto'' = '''' then
           Some [if TLS source \<noteq> None then ''https'' else ''http'']
         else Header target (CanonicalHeaderKey ''X-Forwarded-Proto''))
      \<and> Header_Get (Header target') ''X-Forwarded-Proto'' =
        (if forceForwardedProtoHttps p then ''https''
         else if Header_Get (Header source) ''X-Forwarded-Proto'' = '''' then
           (if TLS source \<noteq> None then ''https'' else ''http'')
         else Header_Get (Header target) ''X-Forwarded-Proto'')
      \<and> Scheme (URL target') = ''http''
      \<and> URL_Host (URL target') = Host source
      \<and> Opaque (URL target') = RequestURI source
      \<and> RawQuery (URL target') = ''''
      \<and> Header target' (CanonicalHeaderKey CfAppInstance) = None
      \<and> Header_Get (Header target') CfAppInstance = '''')"
  by (simp add: setupProxyRequest_def Let_def Header_Set_def Header_Del_def Header_Get_def
      CanonicalHeaderKey_XForwardedProto CanonicalHeaderKey_CfAppInstance)

theorem setupProxyRequest_target_witness:
  "(case setupProxyRequest
       \<lparr>secureCookies = False, forceForwardedProtoHttps = False,
        defaultLoadBalance = ''round-robin''\<rparr>
       1500000000000
       \<lparr>Host = ''myapp.com:443'', RequestURI = ''/a%20b?q=1'',
        Header = [''X-Cf-App-Instance'' \<mapsto> [''guid:1'']],
        Cookies = [], TLS = Some ConnectionState,
        URL = \<lparr>Scheme = '''', Opaque = '''', URL_Host = '''', URL_Path = ''/a b'',
               RawQuery = ''q=1''\<rparr>,
        ctxAccessLogRecord = None, ctxRoutePool = None\<rparr>
       \<lparr>Host = ''myapp.com:443'', RequestURI = ''/a%20b?q=1'',
        Header = [''X-Cf-App-Instance'' \<mapsto> [''guid:1'']],
        Cookies = [], TLS = Some ConnectionState,
        URL = \<lparr>Scheme = '''', Opaque = '''', URL_Host = '''', URL_Path = ''/a b'',
               RawQuery = ''q=1''\<rparr>,
        ctxAccessLogRecord = None, ctxRoutePool = None\<rparr>
     of (source', target') \<Rightarrow>
       Header_Get (Header target') ''X-Forwarded-Proto'' = ''https''
       \<and> Scheme (URL target') = ''http''
       \<and> URL_Host (URL target') = ''myapp.com:443''
       \<and> Opaque (URL target') = ''/a%20b?q=1''
       \<and> RawQuery (URL target') = ''''
       \<and> Header target' ''X-Cf-App-Instance'' = None)"
  using setupProxyRequest_target [where
       p = "\<lparr>secureCookies = False, forceForwardedProtoHttps = False,
         defaultLoadBalance = ''round-robin''\<rparr>"
       and now = 1500000000000
       and source = "\<lparr>Host = ''myapp.com:443'', RequestURI = ''/a%20b?q=1'',
        Header = [''X-Cf-App-Instance'' \<mapsto> [''guid:1'']],
        Cookies = [], TLS = Some ConnectionState,
        URL = \<lparr>Scheme = '''', Opaque = '''', URL_Host = '''', URL_Path = ''/a b'',
               RawQuery = ''q=1''\<rparr>,
        ctxAccessLogRecord = None, ctxRoutePool = None\<rparr>"
       and target = "\<lparr>Host = ''myapp.com:443'', RequestURI = ''/a%20b?q=1'',
        Header = [''X-Cf-App-Instance'' \<mapsto> [''guid:1'']],
        Cookies = [], TLS = Some ConnectionState,
        URL = \<lparr>Scheme = '''', Opaque = '''', URL_Host = '''', URL_Path = ''/a b'',
               RawQuery = ''q=1''\<rparr>,
        ctxAccessLogRecord = None, ctxRoutePool = None\<rparr>"]
  by (simp add: Header_Get_def CanonicalHeaderKey_XForwardedProto CanonicalHeaderKey_CfAppInstance
      split: prod.splits)

section \<open>Properties of the retrying round-tripper\<close>

lemma NextCallCount_simps:
  "NextCallCount (it\<lparr>calls := calls it @ [Next]\<rparr>) = Suc (NextCallCount it)"
  "NextCallCount (iterator_EndpointFailed it) = NextCallCount it"
  "NextCallCount (iterator_PreRequest e it) = NextCallCount it"
  "NextCallCount (iterator_PostRequest e it) = NextCallCount it"
  by (simp_all add: NextCallCount_def iterator_EndpointFailed_def iterator_PreRequest_def
      iterator_PostRequest_def)

text \<open>One attempt in backend mode when \<^verbatim>\<open>Next\<close> yields an endpoint.\<close>

lemma backendRoundTrip_Some:
  assumes "NextStub (iter (tripTripper s)) (calls (iter (tripTripper s))) = Some e"
  shows "backendRoundTrip s =
     (let r1 = (tripRequest s)\<lparr>URL := (URL (tripRequest s))\<lparr>URL_Host := addr e\<rparr>\<rparr>;
          o1 = RoundTripStub (transport (tripTripper s))
                 (roundTripArgs (transport (tripTripper s))) r1
      in s\<lparr>tripTripper :=
             (tripTripper s)
               \<lparr>transport :=
                  (transport (tripTripper s))
                    \<lparr>roundTripArgs := roundTripArgs (transport (tripTripper s)) @ [r1]\<rparr>,
                iter :=
                  (iter (tripTripper s))
                    \<lparr>calls := calls (iter (tripTripper s)) @ [Next, PreRequest e, PostRequest e]\<rparr>\<rparr>,
           tripRequest := r1,
           tripResponse := fst o1,
           tripEndpoint := Some e,
           tripError := snd o1\<rparr>)"
  using assms
  by (simp add: backendRoundTrip_def iterator_Next_def iterator_PreRequest_def
      iterator_PostRequest_def transport_RoundTrip_def Let_def split: prod.splits)

text \<open>One attempt in backend mode when \<^verbatim>\<open>Next\<close> yields nothing.\<close>

lemma backendRoundTrip_None:
  assumes "NextStub (iter (tripTripper s)) (calls (iter (tripTripper s))) = None"
  shows "tripResponse (backendRoundTrip s) = None"
    and "tripError (backendRoundTrip s) = Some NoEndpointsAvailable"
    and "NextCallCount (iter (tripTripper (backendRoundTrip s)))
           = Suc (NextCallCount (iter (tripTripper s)))"
    and "roundTripArgs (transport (tripTripper (backendRoundTrip s)))
           = roundTripArgs (transport (tripTripper s))"
  using assms
  by (simp_all add: backendRoundTrip_def iterator_Next_def Let_def NextCallCount_simps)

text \<open>
  The loop in backend mode with the state written out: the attempt that is made when
  \<^verbatim>\<open>Next\<close> yields the endpoint \<open>e\<close>, and the state from which the loop goes on when the
  transport's error is retriable.
\<close>

lemma attempts_backend_Suc:
  assumes "servingBackend t" and "NextStub it c = Some e"
  shows "attempts (Suc n)
           \<lparr>tripTripper = t\<lparr>transport := tr\<lparr>roundTripArgs := h\<rparr>, iter := it\<lparr>calls := c\<rparr>\<rparr>,
            tripRequest = r, tripResponse = res0, tripEndpoint = ep0, tripError = err0\<rparr> =
     (let r1 = r\<lparr>URL := (URL r)\<lparr>URL_Host := addr e\<rparr>\<rparr>;
          o1 = RoundTripStub tr h r1
      in if (\<exists>err. snd o1 = Some err \<and> retriableError err)
         then attempts n
                \<lparr>tripTripper =
                   t\<lparr>transport := tr\<lparr>roundTripArgs := h @ [r1]\<rparr>,
                     iter := it\<lparr>calls := c @ [Next, PreRequest e, PostRequest e, EndpointFailed]\<rparr>\<rparr>,
                 tripRequest = r1, tripResponse = fst o1, tripEndpoint = Some e,
                 tripError = snd o1\<rparr>
         else \<lparr>tripTripper =
                   t\<lparr>transport := tr\<lparr>roundTripArgs := h @ [r1]\<rparr>,
                     iter := it\<lparr>calls := c @ [Next, PreRequest e, PostRequest e]\<rparr>\<rparr>,
               tripRequest = r1, tripResponse = fst o1, tripEndpoint = Some e,
               tripError = snd o1\<rparr>)"
proof -
  let ?s = "\<lparr>tripTripper = t\<lparr>transport := tr\<lparr>roundTripArgs := h\<rparr>, iter := it\<lparr>calls := c\<rparr>\<rparr>,
            tripRequest = r, tripResponse = res0, tripEndpoint = ep0, tripError = err0\<rparr>"
  have nx: "NextStub (iter (tripTripper ?s)) (calls (iter (tripTripper ?s))) = Some e"
    using assms(2) by simp
  show ?thesis
    using assms(1)
    by (simp add: backendRoundTrip_Some [OF nx] Let_def iterator_EndpointFailed_def
        split: option.splits)
qed

text \<open>In route-service mode no attempt touches the iterator or the request.\<close>


lemma attempts_routeService_frame:
  assumes "\<not> servingBackend (tripTripper s)"
  shows "iter (tripTripper (attempts n s)) = iter (tripTripper s)
         \<and> tripRequest (attempts n s) = tripRequest s"
  using assms
proof (induction n arbitrary: s)
  case 0
  then show ?case by simp
next
  case (Suc n)
  let ?s1 = "routeServiceRoundTrip s"
  have s1: "\<not> servingBackend (tripTripper ?s1)" "iter (tripTripper ?s1) = iter (tripTripper s)"
    "tripRequest ?s1 = tripRequest s"
    using Suc.prems
    by (simp_all add: routeServiceRoundTrip_def transport_RoundTrip_def Let_def split: prod.splits)
  from Suc.IH [OF s1(1)] s1 Suc.prems show ?case
    by (simp add: Let_def split: option.splits)
qed

lemma driverStatus_error: "snd result = Some err \<Longrightarrow> driverStatus result = Some 502"
  by (cases result) (simp add: driverStatus_def split: option.splits)

lemma invokeAfter_frame:
  "iter (tripTripper (invokeAfter s)) = iter (tripTripper s)"
  "tripRequest (invokeAfter s) = tripRequest s"
  "tripResponse (invokeAfter s) = tripResponse s"
  "tripError (invokeAfter s) = tripError s"
  by (simp_all add: invokeAfter_def Let_def)

text \<open>
  Claim C3. In backend mode, when the iterator's \<^verbatim>\<open>Next\<close> returns none on the first
  attempt, \<^verbatim>\<open>RoundTrip\<close> returns the error \<^verbatim>\<open>NoEndpointsAvailable\<close> and no response; the
  iterator was advanced once and the transport was not called.
\<close>

theorem RoundTrip_backend_empty_pool:
  assumes "servingBackend t" and "NextStub (iter t) (calls (iter t)) = None"
  shows "(case RoundTrip t r of (result, t', r') \<Rightarrow>
            result = (None, Some NoEndpointsAvailable)
            \<and> NextCallCount (iter t') = NextCallCount (iter t) + 1
            \<and> roundTripArgs (transport t') = roundTripArgs (transport t))"
proof -
  let ?s = "\<lparr>tripTripper = t, tripRequest = r, tripResponse = None, tripEndpoint = None,
             tripError = None\<rparr>"
  have nx: "NextStub (iter (tripTripper ?s)) (calls (iter (tripTripper ?s))) = None"
    using assms(2) by simp
  note facts = backendRoundTrip_None [OF nx]
  have "\<not> retriableError NoEndpointsAvailable"
    by (simp add: retriableError_def)
  then have "attempts MaxRetries ?s = backendRoundTrip ?s"
    using assms(1) facts(2) by (simp add: MaxRetries_def numeral_3_eq_3 Let_def)
  with facts show ?thesis
    by (simp add: RoundTrip_def Let_def invokeAfter_frame invokeAfter_def)
qed

theorem RoundTrip_backend_empty_pool_witness:
  "fst (RoundTrip
      \<lparr>servingBackend = True,
       transport = \<lparr>RoundTripStub = (\<lambda>h r. (None, None)), roundTripArgs = []\<rparr>,
       iter = \<lparr>NextStub = (\<lambda>h. None), calls = []\<rparr>,
       afterSet = False, afterArgs = []\<rparr>
      \<lparr>Host = ''myapp.com'', RequestURI = ''/'', Header = Map.empty, Cookies = [], TLS = None,
       URL = \<lparr>Scheme = ''http'', Opaque = '''', URL_Host = ''myapp.com'', URL_Path = ''/'',
              RawQuery = ''''\<rparr>,
       ctxAccessLogRecord = None, ctxRoutePool = None\<rparr>)
   = (None, Some NoEndpointsAvailable)"
proof -
  let ?t = "\<lparr>servingBackend = True,
       transport = \<lparr>RoundTripStub = (\<lambda>h r. (None, None)), roundTripArgs = []\<rparr>,
       iter = \<lparr>NextStub = (\<lambda>h. None), calls = []\<rparr>,
       afterSet = False, afterArgs = []\<rparr>"
  have a: "servingBackend ?t" by simp
  have b: "NextStub (iter ?t) (calls (iter ?t)) = None" by simp
  let ?r = "\<lparr>Host = ''myapp.com'', RequestURI = ''/'', Header = Map.empty, Cookies = [], TLS = None,
       URL = \<lparr>Scheme = ''http'', Opaque = '''', URL_Host = ''myapp.com'', URL_Path = ''/'',
              RawQuery = ''''\<rparr>,
       ctxAccessLogRecord = None, ctxRoutePool = None\<rparr>"
  show ?thesis
    using RoundTrip_backend_empty_pool [OF a b, of ?r] by (auto split: prod.splits)
qed

text \<open>
  Claim C1. In backend mode the transport's outcomes decide how often the iterator is
  advanced. Let \<open>e1\<close>, \<open>e2\<close>, \<open>e3\<close> be the endpoints that \<^verbatim>\<open>Next\<close> yields in the attempts
  that are made, \<open>r1\<close>, \<open>r2\<close>, \<open>r3\<close> the request with its URL host rewritten to their
  addresses, and \<open>o1\<close>, \<open>o2\<close>, \<open>o3\<close> what the transport returns for these requests, each
  at the history it has then; an attempt fails retriably (\<open>f1\<close>, \<open>f2\<close>, \<open>f3\<close>) when its
  error is a retriable one. Hypotheses are made about the attempts that take place only:
  \<^verbatim>\<open>Next\<close> yields an endpoint in the first attempt, in the second if the first failed
  retriably, and in the third if the first two did. Then: if all three attempts fail
  retriably, \<^verbatim>\<open>Next\<close> is called exactly 3 times and \<^verbatim>\<open>RoundTrip\<close> returns the error of
  the third, which the driver answers with 502. If the first \<open>N < 3\<close> attempts fail
  retriably and attempt \<open>N + 1\<close> does not (in particular when it succeeds), \<^verbatim>\<open>Next\<close> is
  called exactly \<open>N + 1\<close> times and \<^verbatim>\<open>RoundTrip\<close> returns what that attempt returned,
  unchanged.
\<close>

theorem RoundTrip_backend_Next_calls:
  fixes t :: proxyRoundTripper and r :: request and e1 e2 e3 :: endpoint
  defines "r1 \<equiv> r\<lparr>URL := (URL r)\<lparr>URL_Host := addr e1\<rparr>\<rparr>"
    and "r2 \<equiv> r\<lparr>URL := (URL r)\<lparr>URL_Host := addr e2\<rparr>\<rparr>"
    and "r3 \<equiv> r\<lparr>URL := (URL r)\<lparr>URL_Host := addr e3\<rparr>\<rparr>"
  defines "o1 \<equiv> RoundTripStub (transport t) (roundTripArgs (transport t)) r1"
    and "o2 \<equiv> RoundTripStub (transport t) (roundTripArgs (transport t) @ [r1]) r2"
    and "o3 \<equiv> RoundTripStub (transport t) (roundTripArgs (transport t) @ [r1, r2]) r3"
  defines "f1 \<equiv> (\<exists>err. snd o1 = Some err \<and> retriableError err)"
    and "f2 \<equiv> (\<exists>err. snd o2 = Some err \<and> retriableError err)"
    and "f3 \<equiv> (\<exists>err. snd o3 = Some err \<and> retriableError err)"
  assumes "servingBackend t"
    and "NextStub (iter t) (calls (iter t)) = Some e1"
    and "f1 \<longrightarrow>
           NextStub (iter t)
             (calls (iter t) @ [Next, PreRequest e1, PostRequest e1, EndpointFailed]) = Some e2"
    and "f1 \<and> f2 \<longrightarrow>
           NextStub (iter t)
             (calls (iter t) @ [Next, PreRequest e1, PostRequest e1, EndpointFailed,
                                Next, PreRequest e2, PostRequest e2, EndpointFailed]) = Some e3"
  shows "(case RoundTrip t r of (result, t', r') \<Rightarrow>
            (if \<not> f1 then
               NextCallCount (iter t') = NextCallCount (iter t) + 1 \<and> result = o1
             else if \<not> f2 then
               NextCallCount (iter t') = NextCallCount (iter t) + 2 \<and> result = o2
             else
               NextCallCount (iter t') = NextCallCount (iter t) + 3 \<and> result = o3
               \<and> (f3 \<longrightarrow> driverStatus result = Some 502)))"
proof -
  let ?s0 = "\<lparr>tripTripper = t, tripRequest = r, tripResponse = None, tripEndpoint = None,
              tripError = None\<rparr>"
  have s0: "?s0 =
      \<lparr>tripTripper = t\<lparr>transport := (transport t)\<lparr>roundTripArgs := roundTripArgs (transport t)\<rparr>,
                       iter := (iter t)\<lparr>calls := calls (iter t)\<rparr>\<rparr>,
       tripRequest = r, tripResponse = None, tripEndpoint = None, tripError = None\<rparr>"
    by simp
  have b: "\<And>x y. servingBackend (t\<lparr>transport := x, iter := y\<rparr>)"
    using assms(10) by simp
  have rr: "r1\<lparr>URL := (URL r1)\<lparr>URL_Host := addr e2\<rparr>\<rparr> = r2"
    "r2\<lparr>URL := (URL r2)\<lparr>URL_Host := addr e3\<rparr>\<rparr> = r3"
    by (simp_all add: r1_def r2_def r3_def)
  have first: "attempts (Suc (Suc (Suc 0))) ?s0 =
      (if f1 then attempts (Suc (Suc 0))
          \<lparr>tripTripper =
             t\<lparr>transport := (transport t)\<lparr>roundTripArgs := roundTripArgs (transport t) @ [r1]\<rparr>,
               iter := (iter t)\<lparr>calls := calls (iter t)
                          @ [Next, PreRequest e1, PostRequest e1, EndpointFailed]\<rparr>\<rparr>,
           tripRequest = r1, tripResponse = fst o1, tripEndpoint = Some e1, tripError = snd o1\<rparr>
       else
          \<lparr>tripTripper =
             t\<lparr>transport := (transport t)\<lparr>roundTripArgs := roundTripArgs (transport t) @ [r1]\<rparr>,
               iter := (iter t)\<lparr>calls := calls (iter t) @ [Next, PreRequest e1, PostRequest e1]\<rparr>\<rparr>,
           tripRequest = r1, tripResponse = fst o1, tripEndpoint = Some e1, tripError = snd o1\<rparr>)"
    by (subst s0, subst attempts_backend_Suc [OF assms(10) assms(11)])
      (auto simp: Let_def r1_def o1_def f1_def simp del: attempts.simps(2))
  show ?thesis
  proof (cases f1)
    case False
    with first show ?thesis
      by (simp add: RoundTrip_def MaxRetries_def numeral_3_eq_3 Let_def invokeAfter_frame
            NextCallCount_def del: attempts.simps(2))
  next
    case True
    with assms(12) have nx2: "NextStub (iter t)
             (calls (iter t) @ [Next, PreRequest e1, PostRequest e1, EndpointFailed]) = Some e2"
      by simp
    have second: "attempts (Suc (Suc (Suc 0))) ?s0 =
      (if f2 then attempts (Suc 0)
          \<lparr>tripTripper =
             t\<lparr>transport := (transport t)\<lparr>roundTripArgs := roundTripArgs (transport t) @ [r1, r2]\<rparr>,
               iter := (iter t)\<lparr>calls := calls (iter t)
                          @ [Next, PreRequest e1, PostRequest e1, EndpointFailed,
                             Next, PreRequest e2, PostRequest e2, EndpointFailed]\<rparr>\<rparr>,
           tripRequest = r2, tripResponse = fst o2, tripEndpoint = Some e2, tripError = snd o2\<rparr>
       else
          \<lparr>tripTripper =
             t\<lparr>transport := (transport t)\<lparr>roundTripArgs := roundTripArgs (transport t) @ [r1, r2]\<rparr>,
               iter := (iter t)\<lparr>calls := calls (iter t)
                          @ [Next, PreRequest e1, PostRequest e1, EndpointFailed,
                             Next, PreRequest e2, PostRequest e2]\<rparr>\<rparr>,
           tripRequest = r2, tripResponse = fst o2, tripEndpoint = Some e2, tripError = snd o2\<rparr>)"
      unfolding first using True
      by (auto simp: attempts_backend_Suc [OF assms(10) nx2] Let_def rr o2_def f2_def
          simp del: attempts.simps(2))
    show ?thesis
    proof (cases f2)
      case False
      with True second show ?thesis
        by (simp add: RoundTrip_def MaxRetries_def numeral_3_eq_3 Let_def invokeAfter_frame
            NextCallCount_def del: attempts.simps(2))
    next
      case f2: True
      with True assms(13) have nx3: "NextStub (iter t)
             (calls (iter t) @ [Next, PreRequest e1, PostRequest e1, EndpointFailed,
                                Next, PreRequest e2, PostRequest e2, EndpointFailed]) = Some e3"
        by simp
      have third: "attempts (Suc (Suc (Suc 0))) ?s0 =
          \<lparr>tripTripper =
             t\<lparr>transport := (transport t)
                   \<lparr>roundTripArgs := roundTripArgs (transport t) @ [r1, r2, r3]\<rparr>,
               iter := (iter t)\<lparr>calls := calls (iter t)
                          @ [Next, PreRequest e1, PostRequest e1, EndpointFailed,
                             Next, PreRequest e2, PostRequest e2, EndpointFailed,
                             Next, PreRequest e3, PostRequest e3]
                          @ (if f3 then [EndpointFailed] else [])\<rparr>\<rparr>,
           tripRequest = r3, tripResponse = fst o3, tripEndpoint = Some e3, tripError = snd o3\<rparr>"
        unfolding second using f2
        by (auto simp: attempts_backend_Suc [OF assms(10) nx3] Let_def rr o3_def f3_def
            simp del: attempts.simps(2))
      from True f2 third show ?thesis
        by (auto simp: RoundTrip_def MaxRetries_def numeral_3_eq_3 Let_def invokeAfter_frame
            NextCallCount_def driverStatus_error f3_def simp del: attempts.simps(2))
    qed
  qed
qed

text \<open>
  Two instances. In the first the transport's outcome depends on the request: the iterator
  yields the endpoint at \<^verbatim>\<open>10.0.0.1:8080\<close> and then the one at \<^verbatim>\<open>10.0.0.2:8080\<close>; the
  transport cannot dial the former and gets 200 from the latter. In the second every
  round trip ends with a connection reset.
\<close>

theorem RoundTrip_backend_Next_calls_witness:
  "(case RoundTrip
      \<lparr>servingBackend = True,
       transport =
         \<lparr>RoundTripStub =
            (\<lambda>h r. if URL_Host (URL r) = ''10.0.0.1:8080''
                    then (None, Some (OpError ''dial'' (ErrorString ''error'')))
                    else (Some \<lparr>StatusCode = 200, SetCookies = []\<rparr>, None)),
          roundTripArgs = []\<rparr>,
       iter =
         \<lparr>NextStub =
            (\<lambda>h. case h of
                    [] \<Rightarrow>
                      Some \<lparr>ApplicationId = ''someId'', addr = ''10.0.0.1:8080'',
                            PrivateInstanceId = ''privateId1'', PrivateInstanceIndex = ''1'',
                            Tags = Map.empty, StaleThresholdInSeconds = 30,
                            RouteServiceUrl = ''''\<rparr>
                  | _ # _ \<Rightarrow>
                      Some \<lparr>ApplicationId = ''someId'', addr = ''10.0.0.2:8080'',
                            PrivateInstanceId = ''privateId2'', PrivateInstanceIndex = ''2'',
                            Tags = Map.empty, StaleThresholdInSeconds = 30,
                            RouteServiceUrl = ''''\<rparr>),
          calls = []\<rparr>,
       afterSet = False, afterArgs = []\<rparr>
      \<lparr>Host = ''myapp.com'', RequestURI = ''/'', Header = Map.empty, Cookies = [], TLS = None,
       URL = \<lparr>Scheme = ''http'', Opaque = '''', URL_Host = ''myapp.com'', URL_Path = ''/'',
              RawQuery = ''''\<rparr>,
       ctxAccessLogRecord = None, ctxRoutePool = None\<rparr>
    of (result, t', r') \<Rightarrow>
      NextCallCount (iter t') = 2
      \<and> result = (Some \<lparr>StatusCode = 200, SetCookies = []\<rparr>, None))
   \<and> (case RoundTrip
      \<lparr>servingBackend = True,
       transport =
         \<lparr>RoundTripStub = (\<lambda>h r. (None, Some (OpError ''read'' ECONNRESET))),
          roundTripArgs = []\<rparr>,
       iter =
         \<lparr>NextStub =
            (\<lambda>h. Some \<lparr>ApplicationId = ''someId'', addr = ''10.0.0.1:8080'',
                         PrivateInstanceId = ''privateId1'', PrivateInstanceIndex = ''1'',
                         Tags = Map.empty, StaleThresholdInSeconds = 30,
                         RouteServiceUrl = ''''\<rparr>),
          calls = []\<rparr>,
       afterSet = False, afterArgs = []\<rparr>
      \<lparr>Host = ''myapp.com'', RequestURI = ''/'', Header = Map.empty, Cookies = [], TLS = None,
       URL = \<lparr>Scheme = ''http'', Opaque = '''', URL_Host = ''myapp.com'', URL_Path = ''/'',
              RawQuery = ''''\<rparr>,
       ctxAccessLogRecord = None, ctxRoutePool = None\<rparr>
    of (result, t', r') \<Rightarrow>
      NextCallCount (iter t') = 3
      \<and> result = (None, Some (OpError ''read'' ECONNRESET))
      \<and> driverStatus result = Some 502)"
proof -
  let ?A = "\<lparr>ApplicationId = ''someId'', addr = ''10.0.0.1:8080'',
             PrivateInstanceId = ''privateId1'', PrivateInstanceIndex = ''1'',
             Tags = Map.empty, StaleThresholdInSeconds = 30, RouteServiceUrl = ''''\<rparr>"
  let ?B = "\<lparr>ApplicationId = ''someId'', addr = ''10.0.0.2:8080'',
             PrivateInstanceId = ''privateId2'', PrivateInstanceIndex = ''2'',
             Tags = Map.empty, StaleThresholdInSeconds = 30, RouteServiceUrl = ''''\<rparr>"
  let ?t = "\<lparr>servingBackend = True,
       transport =
         \<lparr>RoundTripStub =
            (\<lambda>h r. if URL_Host (URL r) = ''10.0.0.1:8080''
                    then (None, Some (OpError ''dial'' (ErrorString ''error'')))
                    else (Some \<lparr>StatusCode = 200, SetCookies = []\<rparr>, None)),
          roundTripArgs = []\<rparr>,
       iter = \<lparr>NextStub = (\<lambda>h. case h of [] \<Rightarrow> Some ?A | _ # _ \<Rightarrow> Some ?B), calls = []\<rparr>,
       afterSet = False, afterArgs = []\<rparr>"
  let ?u = "\<lparr>servingBackend = True,
       transport =
         \<lparr>RoundTripStub = (\<lambda>h r. (None, Some (OpError ''read'' ECONNRESET))),
          roundTripArgs = []\<rparr>,
       iter = \<lparr>NextStub = (\<lambda>h. Some ?A), calls = []\<rparr>,
       afterSet = False, afterArgs = []\<rparr>"
  let ?r = "\<lparr>Host = ''myapp.com'', RequestURI = ''/'', Header = Map.empty, Cookies = [], TLS = None,
       URL = \<lparr>Scheme = ''http'', Opaque = '''', URL_Host = ''myapp.com'', URL_Path = ''/'',
              RawQuery = ''''\<rparr>,
       ctxAccessLogRecord = None, ctxRoutePool = None\<rparr>"
  have first: "(case RoundTrip ?t ?r of (result, t', r') \<Rightarrow>
      NextCallCount (iter t') = 2
      \<and> result = (Some \<lparr>StatusCode = 200, SetCookies = []\<rparr>, None))"
    using RoundTrip_backend_Next_calls [where t = ?t and r = ?r and ?e1.0 = ?A and ?e2.0 = ?B
        and ?e3.0 = ?B]
    by (auto simp: retriableError_def NextCallCount_def split: prod.splits)
  have second: "(case RoundTrip ?u ?r of (result, t', r') \<Rightarrow>
      NextCallCount (iter t') = 3
      \<and> result = (None, Some (OpError ''read'' ECONNRESET))
      \<and> driverStatus result = Some 502)"
    using RoundTrip_backend_Next_calls [where t = ?u and r = ?r and ?e1.0 = ?A and ?e2.0 = ?A
        and ?e3.0 = ?A]
    by (auto simp: retriableError_def NextCallCount_def split: prod.splits)
  from first second show ?thesis by simp
qed

text \<open>
  Claim C2. In route-service mode, whatever the transport returns on each of the at most 3
  attempts, \<^verbatim>\<open>RoundTrip\<close> makes no call on the iterator, so \<^verbatim>\<open>Next\<close> is never called, and
  the request keeps its headers: \<^verbatim>\<open>X-CF-Forwarded-Url\<close> holds the same value after the call
  as before, also when the first attempt fails with a retriable error.
\<close>

theorem RoundTrip_routeService_frame:
  assumes "\<not> servingBackend t"
  shows "(case RoundTrip t r of (result, t', r') \<Rightarrow>
            calls (iter t') = calls (iter t)
            \<and> NextCallCount (iter t') = NextCallCount (iter t)
            \<and> Header r' = Header r
            \<and> Header_Get (Header r') RouteServiceForwardedURL
                = Header_Get (Header r) RouteServiceForwardedURL)"
proof -
  let ?s = "\<lparr>tripTripper = t, tripRequest = r, tripResponse = None, tripEndpoint = None,
             tripError = None\<rparr>"
  have "\<not> servingBackend (tripTripper ?s)" using assms by simp
  from attempts_routeService_frame [OF this, of MaxRetries] show ?thesis
    by (simp add: RoundTrip_def Let_def invokeAfter_frame)
qed

theorem RoundTrip_routeService_frame_witness:
  "(case RoundTrip
      \<lparr>servingBackend = False,
       transport =
         \<lparr>RoundTripStub =
            (\<lambda>h r. if length h < 1 then (None, Some (OpError ''dial'' (ErrorString ''error'')))
                    else (None, None)),
          roundTripArgs = []\<rparr>,
       iter =
         \<lparr>NextStub =
            (\<lambda>h. Some \<lparr>ApplicationId = '''', addr = '''', PrivateInstanceId = '''',
                         PrivateInstanceIndex = '''', Tags = Map.empty,
                         StaleThresholdInSeconds = 0,
                         RouteServiceUrl = ''https://routeservice.net/''\<rparr>),
          calls = []\<rparr>,
       afterSet = True, afterArgs = []\<rparr>
      \<lparr>Host = ''myapp.com'', RequestURI = ''/'',
       Header = [''X-Cf-Forwarded-Url'' \<mapsto> [''http://myapp.com/'']],
       Cookies = [], TLS = None,
       URL = \<lparr>Scheme = ''http'', Opaque = '''', URL_Host = ''myapp.com'', URL_Path = ''/'',
              RawQuery = ''''\<rparr>,
       ctxAccessLogRecord = None, ctxRoutePool = None\<rparr>
    of (result, t', r') \<Rightarrow>
      NextCallCount (iter t') = 0
      \<and> Header_Get (Header r') RouteServiceForwardedURL = ''http://myapp.com/'')"
proof -
  let ?t = "\<lparr>servingBackend = False,
       transport =
         \<lparr>RoundTripStub =
            (\<lambda>h r. if length h < 1 then (None, Some (OpError ''dial'' (ErrorString ''error'')))
                    else (None, None)),
          roundTripArgs = []\<rparr>,
       iter =
         \<lparr>NextStub =
            (\<lambda>h. Some \<lparr>ApplicationId = '''', addr = '''', PrivateInstanceId = '''',
                         PrivateInstanceIndex = '''', Tags = Map.empty,
                         StaleThresholdInSeconds = 0,
                         RouteServiceUrl = ''https://routeservice.net/''\<rparr>),
          calls = []\<rparr>,
       afterSet = True, afterArgs = []\<rparr>"
  have a: "\<not> servingBackend ?t" by simp
  have k: "CanonicalHeaderKey RouteServiceForwardedURL = ''X-Cf-Forwarded-Url''"
    by code_simp
  let ?r = "\<lparr>Host = ''myapp.com'', RequestURI = ''/'',
       Header = [''X-Cf-Forwarded-Url'' \<mapsto> [''http://myapp.com/'']],
       Cookies = [], TLS = None,
       URL = \<lparr>Scheme = ''http'', Opaque = '''', URL_Host = ''myapp.com'', URL_Path = ''/'',
              RawQuery = ''''\<rparr>,
       ctxAccessLogRecord = None, ctxRoutePool = None\<rparr>"
  show ?thesis
    using RoundTrip_routeService_frame [OF a, of ?r] k
    by (auto simp: NextCallCount_def Header_Get_def split: prod.splits)
qed

end
